theory Spec2Isabelle
  imports Main
begin

section \<open>Python values and the object store\<close>

text \<open>
  The module \<^verbatim>\<open>pydantic_validator.py\<close> is untyped Python: the constructor of
  \<^verbatim>\<open>ValidationResult\<close> and the two validation functions accept any object. The
  values modelled here are \<^verbatim>\<open>None\<close>, booleans, unbounded integers, strings and tuples
  (immutable, so held by value) and references to objects of the store: lists,
  dictionaries and instances of classes. Lists are held by reference because the
  constructor either keeps the caller's list object or creates a new one, and the
  difference is the identity of the object.
\<close>

type_synonym addr = nat

datatype pyval =
    PNone
  | PBool bool
  | PInt int
  | PStr string
  | PTuple "pyval list"
  | PRef addr

text \<open>
  An object of any other type (a set, bytes, a range, a generator, a float, an instance
  of a class of the caller's) is an instance: the name of its class and its attributes.
\<close>

datatype pyobj =
    OList "pyval list"
  | ODict "(pyval \<times> pyval) list"
  | OInstance string "(string \<times> pyval) list"

text \<open>The store is the sequence of objects created so far; an address is an index.\<close>

type_synonym heap = "pyobj list"

datatype error =
    TruthTestRaised addr
  | NoObject addr

text \<open>
  A step of the program either raises or returns a value; in both cases it leaves a
  store behind.
\<close>

type_synonym 'a result = "(error \<times> heap) + ('a \<times> heap)"

definition lookup :: "heap \<Rightarrow> addr \<Rightarrow> pyobj option" where
  "lookup h a = (if a < length h then Some (h ! a) else None)"

text \<open>Creating an object: it gets the next address, and no existing object changes.\<close>

definition alloc :: "pyobj \<Rightarrow> heap \<Rightarrow> addr \<times> heap" where
  "alloc ob h = (length h, h @ [ob])"

subsection \<open>Classes\<close>

text \<open>
  The classes of the arguments are not part of the module: they are code of the caller,
  and the module runs it when it tests an argument for truth. They are a parameter of
  the model. What matters of a class is
  \<^item> \<open>truth_test\<close>: what the truth test of an instance does (its \<^verbatim>\<open>__bool__\<close>, else its
    \<^verbatim>\<open>__len__\<close>, else the answer true). Given the address of the instance and the
    store, it answers true or false or raises, and it may read and change every object
    of the store and create new ones, so it may also answer differently the next time;
  \<^item> \<open>has_iter\<close>: whether instances are iterable (the class has \<^verbatim>\<open>__iter__\<close>).
\<close>

record pyclass =
  truth_test :: "addr \<Rightarrow> heap \<Rightarrow> bool result"
  has_iter :: bool

type_synonym classes = "string \<Rightarrow> pyclass"

subsection \<open>Truth value testing\<close>

text \<open>
  Python's truth test, as \<^verbatim>\<open>x or y\<close> applies it to \<^verbatim>\<open>x\<close>: \<^verbatim>\<open>None\<close>, \<^verbatim>\<open>False\<close>,
  zero and empty containers are false, the other built-in values are true, and these
  tests change nothing; an instance answers through the method of its class. An address
  with no object behind it is not a Python value; the test reports it as \<open>NoObject\<close>.
\<close>

fun obj_truth :: "classes \<Rightarrow> heap \<Rightarrow> addr \<Rightarrow> pyobj \<Rightarrow> bool result" where
  "obj_truth cs h a (OList xs) = Inr (xs \<noteq> [], h)"
| "obj_truth cs h a (ODict kvs) = Inr (kvs \<noteq> [], h)"
| "obj_truth cs h a (OInstance c attrs) = truth_test (cs c) a h"

fun truthy :: "classes \<Rightarrow> heap \<Rightarrow> pyval \<Rightarrow> bool result" where
  "truthy cs h PNone = Inr (False, h)"
| "truthy cs h (PBool b) = Inr (b, h)"
| "truthy cs h (PInt i) = Inr (i \<noteq> 0, h)"
| "truthy cs h (PStr s) = Inr (s \<noteq> [], h)"
| "truthy cs h (PTuple vs) = Inr (vs \<noteq> [], h)"
| "truthy cs h (PRef a) =
     (case lookup h a of None \<Rightarrow> Inl (NoObject a, h) | Some ob \<Rightarrow> obj_truth cs h a ob)"

text \<open>
  The expression \<^verbatim>\<open>x or []\<close>: \<^verbatim>\<open>x\<close> is tested; when it is true the value is \<^verbatim>\<open>x\<close>
  itself and the list display is not evaluated; otherwise the display creates a new
  empty list, in the store the test has left.
\<close>

definition or_new_list :: "classes \<Rightarrow> pyval \<Rightarrow> heap \<Rightarrow> pyval result" where
  "or_new_list cs x h =
     (case truthy cs h x of
        Inl eh \<Rightarrow> Inl eh
      | Inr (b, h1) \<Rightarrow>
          if b then Inr (x, h1)
          else (case alloc (OList []) h1 of (a, h2) \<Rightarrow> Inr (PRef a, h2)))"

section \<open>ValidationResult\<close>

text \<open>
  \<^verbatim>\<open>
  class ValidationResult:
      def __init__(self, valid=True, errors=None, warnings=None):
          self.valid = valid
          self.errors = errors or []
          self.warnings = warnings or []
  \<close>
\<close>

record ValidationResult =
  valid :: pyval
  errors :: pyval
  warnings :: pyval

text \<open>The body of \<^verbatim>\<open>__init__\<close>, its three assignments in order.\<close>

definition ValidationResult_init ::
  "classes \<Rightarrow> pyval \<Rightarrow> pyval \<Rightarrow> pyval \<Rightarrow> heap \<Rightarrow> ValidationResult result" where
  "ValidationResult_init cs v e w h =
     (case or_new_list cs e h of
        Inl eh \<Rightarrow> Inl eh
      | Inr (ev, h1) \<Rightarrow>
          (case or_new_list cs w h1 of
             Inl eh \<Rightarrow> Inl eh
           | Inr (wv, h2) \<Rightarrow> Inr (\<lparr>valid = v, errors = ev, warnings = wv\<rparr>, h2)))"

text \<open>
  The call \<^verbatim>\<open>ValidationResult(...)\<close>: an argument that is not passed (\<open>None\<close> here)
  takes the default of the signature, \<^verbatim>\<open>valid=True, errors=None, warnings=None\<close>.
\<close>

definition new_ValidationResult ::
  "classes \<Rightarrow> pyval option \<Rightarrow> pyval option \<Rightarrow> pyval option \<Rightarrow> heap \<Rightarrow> ValidationResult result" where
  "new_ValidationResult cs vo eo wo h =
     ValidationResult_init cs
       (case vo of None \<Rightarrow> PBool True | Some v \<Rightarrow> v)
       (case eo of None \<Rightarrow> PNone | Some e \<Rightarrow> e)
       (case wo of None \<Rightarrow> PNone | Some w \<Rightarrow> w)
       h"

section \<open>PydanticValidator\<close>

text \<open>
  \<^verbatim>\<open>
  @staticmethod
  def validate_agent_input(input_data):
      return ValidationResult(valid=True)

  @staticmethod
  def validate_agent_output(output_data):
      return ValidationResult(valid=True)
  \<close>
\<close>

definition validate_agent_input :: "classes \<Rightarrow> pyval \<Rightarrow> heap \<Rightarrow> ValidationResult result" where
  "validate_agent_input cs input_data h =
     new_ValidationResult cs (Some (PBool True)) None None h"

definition validate_agent_output :: "classes \<Rightarrow> pyval \<Rightarrow> heap \<Rightarrow> ValidationResult result" where
  "validate_agent_output cs output_data h =
     new_ValidationResult cs (Some (PBool True)) None None h"

text \<open>The two static methods under one name, to speak of "either function".\<close>

datatype entry_point = AgentInput | AgentOutput

fun validate :: "classes \<Rightarrow> entry_point \<Rightarrow> pyval \<Rightarrow> heap \<Rightarrow> ValidationResult result" where
  "validate cs AgentInput = validate_agent_input cs"
| "validate cs AgentOutput = validate_agent_output cs"

section \<open>Observing a result\<close>

text \<open>The elements of a list object, for a value that refers to one.\<close>

fun list_items :: "heap \<Rightarrow> pyval \<Rightarrow> pyval list option" where
  "list_items h (PRef a) = (case lookup h a of Some (OList xs) \<Rightarrow> Some xs | _ \<Rightarrow> None)"
| "list_items h _ = None"


text \<open>
  What a caller reading the three fields sees: the flag, and the elements of the two
  lists (\<open>None\<close> for a field that is not a list).
\<close>

definition observe :: "heap \<Rightarrow> ValidationResult \<Rightarrow> pyval \<times> pyval list option \<times> pyval list option" where
  "observe h r = (valid r, list_items h (errors r), list_items h (warnings r))"

definition outcome ::
  "ValidationResult result \<Rightarrow> (pyval \<times> pyval list option \<times> pyval list option) option" where
  "outcome x = (case x of Inl eh \<Rightarrow> None | Inr (r, h) \<Rightarrow> Some (observe h r))"

section \<open>Predicates on constructor arguments\<close>



text \<open>
  The false values as the specification names them: \<^verbatim>\<open>None\<close>, the empty list, 0, the
  empty string and \<^verbatim>\<open>False\<close>.
\<close>

fun named_falsy :: "heap \<Rightarrow> pyval \<Rightarrow> bool" where
  "named_falsy h PNone = True"
| "named_falsy h (PBool b) = (\<not> b)"
| "named_falsy h (PInt i) = (i = 0)"
| "named_falsy h (PStr s) = (s = [])"
| "named_falsy h (PTuple vs) = False"
| "named_falsy h (PRef a) = (lookup h a = Some (OList []))"

text \<open>
  A value that refers to an empty list created between the stores \<open>h\<close> and \<open>h'\<close>: its
  address holds no object in \<open>h\<close> and an empty list in \<open>h'\<close>.
\<close>

fun new_empty_list :: "heap \<Rightarrow> heap \<Rightarrow> pyval \<Rightarrow> bool" where
  "new_empty_list h h' (PRef a) = (lookup h a = None \<and> lookup h' a = Some (OList []))"
| "new_empty_list h h' _ = False"

subsection \<open>Some classes\<close>

text \<open>
  Four classes to run the constructor on. \<^verbatim>\<open>Appender\<close> has a truth test with an effect:
  \<^verbatim>\<open>
  t = []                       # the object at address 0
  class Appender:
      def __bool__(self):
          t.append(1); return False
  class Raiser:
      def __bool__(self):
          raise ValueError()
  \<close>
  \<^verbatim>\<open>set\<close> is the built-in type, an iterable whose truth is that it has elements (held
  in its attributes); every other name is a class like \<^verbatim>\<open>object\<close>, with no method of
  its own: always true, not iterable.
\<close>

definition append_to :: "addr \<Rightarrow> pyval \<Rightarrow> heap \<Rightarrow> heap" where
  "append_to a x h =
     (case lookup h a of Some (OList xs) \<Rightarrow> h[a := OList (xs @ [x])] | _ \<Rightarrow> h)"

definition has_attrs :: "heap \<Rightarrow> addr \<Rightarrow> bool" where
  "has_attrs h a = (case lookup h a of Some (OInstance c attrs) \<Rightarrow> attrs \<noteq> [] | _ \<Rightarrow> False)"

definition example_classes :: classes where
  "example_classes c =
     (if c = ''Appender'' then
        \<lparr>truth_test = (\<lambda>a h. Inr (False, append_to 0 (PInt 1) h)), has_iter = False\<rparr>
      else if c = ''Raiser'' then
        \<lparr>truth_test = (\<lambda>a h. Inl (TruthTestRaised a, h)), has_iter = False\<rparr>
      else if c = ''set'' then
        \<lparr>truth_test = (\<lambda>a h. Inr (has_attrs h a, h)), has_iter = True\<rparr>
      else
        \<lparr>truth_test = (\<lambda>a h. Inr (True, h)), has_iter = False\<rparr>)"

section \<open>Basic facts\<close>

lemma lookup_append_old: "a < length h \<Longrightarrow> lookup (h @ g) a = lookup h a"
  by (simp add: lookup_def nth_append)

lemma lookup_fresh: "lookup h (length h) = None"
  by (simp add: lookup_def)

lemma lookup_snoc_new: "lookup (h @ [ob]) (length h) = Some ob"
  by (simp add: lookup_def)

lemma or_new_list_None: "or_new_list cs PNone h = Inr (PRef (length h), h @ [OList []])"
  by (simp add: or_new_list_def alloc_def)

lemma init_defaults:
  "ValidationResult_init cs v PNone PNone h =
     Inr (\<lparr>valid = v, errors = PRef (length h), warnings = PRef (Suc (length h))\<rparr>,
          h @ [OList [], OList []])"
  by (simp add: ValidationResult_init_def or_new_list_None)

lemma validate_agent_input_eq:
  "validate_agent_input cs p h =
     Inr (\<lparr>valid = PBool True, errors = PRef (length h), warnings = PRef (Suc (length h))\<rparr>,
          h @ [OList [], OList []])"
  by (simp add: validate_agent_input_def new_ValidationResult_def init_defaults)

lemma validate_agent_output_eq:
  "validate_agent_output cs p h =
     Inr (\<lparr>valid = PBool True, errors = PRef (length h), warnings = PRef (Suc (length h))\<rparr>,
          h @ [OList [], OList []])"
  by (simp add: validate_agent_output_def new_ValidationResult_def init_defaults)

lemma validate_eq:
  "validate cs f p h =
     Inr (\<lparr>valid = PBool True, errors = PRef (length h), warnings = PRef (Suc (length h))\<rparr>,
          h @ [OList [], OList []])"
  by (cases f) (simp_all add: validate_agent_input_eq validate_agent_output_eq)

lemma outcome_validate: "outcome (validate cs f p h) = Some (PBool True, Some [], Some [])"
  by (simp add: validate_eq outcome_def observe_def lookup_def nth_append)

subsection \<open>The constructor, step by step\<close>

text \<open>
  The constructor returns exactly when both truth tests answer. The first runs in the
  caller's store; the second runs in the store the first has left, with the new
  \<^verbatim>\<open>errors\<close> list in it when the first answered false.
\<close>

lemma or_new_list_truthy:
  "truthy cs h x = Inr (b, h1) \<Longrightarrow>
     or_new_list cs x h =
       Inr (if b then x else PRef (length h1), if b then h1 else h1 @ [OList []])"
  by (simp add: or_new_list_def alloc_def)

lemma or_new_list_Inr:
  "or_new_list cs x h = Inr (y, h') \<Longrightarrow>
     \<exists>b h1. truthy cs h x = Inr (b, h1) \<and> y = (if b then x else PRef (length h1)) \<and>
         h' = (if b then h1 else h1 @ [OList []])"
  by (auto simp: or_new_list_def alloc_def split: sum.splits prod.splits if_splits)

lemma init_exact:
  assumes "truthy cs h e = Inr (be, h1)"
    and "truthy cs (if be then h1 else h1 @ [OList []]) w = Inr (bw, h2)"
  shows "ValidationResult_init cs v e w h =
           Inr (\<lparr>valid = v, errors = (if be then e else PRef (length h1)),
                   warnings = (if bw then w else PRef (length h2))\<rparr>,
                if bw then h2 else h2 @ [OList []])"
  using or_new_list_truthy [OF assms(1)] or_new_list_truthy [OF assms(2)]
  by (simp add: ValidationResult_init_def)

lemma init_Inr_tests:
  assumes "ValidationResult_init cs v e w h = Inr (r, h')"
  shows "\<exists>be h1 bw h2. truthy cs h e = Inr (be, h1) \<and>
            truthy cs (if be then h1 else h1 @ [OList []]) w = Inr (bw, h2)"
proof -
  from assms obtain ev hm wv where
    e: "or_new_list cs e h = Inr (ev, hm)" and w: "or_new_list cs w hm = Inr (wv, h')"
    by (auto simp: ValidationResult_init_def split: sum.splits prod.splits)
  from or_new_list_Inr [OF e] obtain be h1 where
    be: "truthy cs h e = Inr (be, h1)" "hm = (if be then h1 else h1 @ [OList []])"
    by blast
  from or_new_list_Inr [OF w] obtain bw h2 where "truthy cs hm w = Inr (bw, h2)"
    by blast
  with be show ?thesis by blast
qed

lemma named_falsy_truthy: "named_falsy h x \<Longrightarrow> truthy cs h x = Inr (False, h)"
  by (cases x) auto



section \<open>The validation functions always succeed\<close>

text \<open>
  C1. For every payload, whatever it is, and in every state of the store,
  \<^verbatim>\<open>validate_agent_input\<close> returns a result whose \<^verbatim>\<open>valid\<close> field is \<^verbatim>\<open>True\<close>, and so
  does \<^verbatim>\<open>validate_agent_output\<close>.
\<close>

theorem validate_always_valid:
  "(\<exists>r h'. validate_agent_input cs p h = Inr (r, h') \<and> valid r = PBool True) \<and>
   (\<exists>r h'. validate_agent_output cs p h = Inr (r, h') \<and> valid r = PBool True)"
  by (simp add: validate_agent_input_eq validate_agent_output_eq)

text \<open>
  C2. For every payload and every store, the result of \<^verbatim>\<open>validate_agent_input\<close> and
  the result of \<^verbatim>\<open>validate_agent_output\<close> have an \<^verbatim>\<open>errors\<close> field and a
  \<^verbatim>\<open>warnings\<close> field that are lists with no element.
\<close>

theorem validate_empty_errors_warnings:
  "(\<exists>r h'. validate_agent_input cs p h = Inr (r, h') \<and>
       list_items h' (errors r) = Some [] \<and> list_items h' (warnings r) = Some []) \<and>
   (\<exists>r h'. validate_agent_output cs p h = Inr (r, h') \<and>
       list_items h' (errors r) = Some [] \<and> list_items h' (warnings r) = Some [])"
  by (simp add: validate_agent_input_eq validate_agent_output_eq lookup_def nth_append)

text \<open>
  C5. Both functions are total: for every payload and every store they return a
  \<^verbatim>\<open>ValidationResult\<close>, and no exception is their outcome. (The definitions are not
  recursive, so termination is not in question.) The constructor they call does have an
  error branch, \<open>constructor_can_raise\<close> below; the arguments the two functions pass
  never reach it.
\<close>

theorem validate_total:
  "(\<exists>r h'. validate_agent_input cs p h = Inr (r, h')) \<and>
   (\<exists>r h'. validate_agent_output cs p h = Inr (r, h')) \<and>
   (\<forall>e. validate_agent_input cs p h \<noteq> Inl e) \<and>
   (\<forall>e. validate_agent_output cs p h \<noteq> Inl e)"
  by (simp add: validate_agent_input_eq validate_agent_output_eq)

lemma constructor_can_raise:
  "new_ValidationResult example_classes None (Some (PRef 0)) None [OInstance ''Raiser'' []] =
     Inl (TruthTestRaised 0, [OInstance ''Raiser'' []])"
  by (simp add: new_ValidationResult_def ValidationResult_init_def or_new_list_def lookup_def
      example_classes_def)

text \<open>
  C8. The two functions are extensionally equal: on the same payload and store they
  return the same result and the same store; and from different stores the results still
  show the same \<^verbatim>\<open>valid\<close> flag, the same \<^verbatim>\<open>errors\<close> and the same \<^verbatim>\<open>warnings\<close>.
\<close>

theorem validate_input_output_equal:
  "validate_agent_input cs p h = validate_agent_output cs p h \<and>
   outcome (validate_agent_input cs p h) = outcome (validate_agent_output cs p h0)"
  by (simp add: validate_agent_input_eq validate_agent_output_eq outcome_def observe_def
      lookup_def nth_append)

text \<open>
  C6. Calls do not interfere. Whatever the two payloads \<open>p\<close> and \<open>q\<close> and whichever of
  the two functions \<open>f\<close> and \<open>g\<close>: from the same store the calls give the same outcome
  (the payload is ignored); from any two stores \<open>h\<close> and \<open>h0\<close> a caller observes the
  same fields (no state is read); and when the second call runs after the first, both
  results show the same fields, the first result is not changed by the second call, each
  call leaves the objects that existed before it as they were (no state is written), and
  the four lists of the two results are four different objects (nothing is shared).
\<close>

theorem validate_independent_calls:
  "validate cs f p h = validate cs g q h \<and>
   outcome (validate cs f p h) = outcome (validate cs g q h0) \<and>
   (\<exists>r1 h1 r2 h2.
      validate cs f p h = Inr (r1, h1) \<and> validate cs g q h1 = Inr (r2, h2) \<and>
      observe h2 r1 = observe h2 r2 \<and> observe h2 r1 = observe h1 r1 \<and>
      take (length h) h1 = h \<and> take (length h1) h2 = h1 \<and>
      distinct [errors r1, warnings r1, errors r2, warnings r2])"
proof -
  have "validate cs f p h = validate cs g q h"
    by (simp add: validate_eq)
  moreover have "outcome (validate cs f p h) = outcome (validate cs g q h0)"
    by (simp add: outcome_validate)
  moreover have "\<exists>r1 h1 r2 h2.
      validate cs f p h = Inr (r1, h1) \<and> validate cs g q h1 = Inr (r2, h2) \<and>
      observe h2 r1 = observe h2 r2 \<and> observe h2 r1 = observe h1 r1 \<and>
      take (length h) h1 = h \<and> take (length h1) h2 = h1 \<and>
      distinct [errors r1, warnings r1, errors r2, warnings r2]"
    by (simp add: validate_eq observe_def lookup_def nth_append)
  ultimately show ?thesis by blast
qed

section \<open>The constructor\<close>

text \<open>
  C3. \<^verbatim>\<open>ValidationResult()\<close>, with no argument, gives \<^verbatim>\<open>valid\<close> equal to \<^verbatim>\<open>True\<close>
  and \<^verbatim>\<open>errors\<close> and \<^verbatim>\<open>warnings\<close> equal to empty lists.
\<close>

theorem constructor_no_arguments:
  "\<exists>r h'. new_ValidationResult cs None None None h = Inr (r, h') \<and>
      valid r = PBool True \<and>
      list_items h' (errors r) = Some [] \<and> list_items h' (warnings r) = Some []"
  by (simp add: new_ValidationResult_def init_defaults lookup_def nth_append)




text \<open>
  C7. The constructor does not check \<^verbatim>\<open>valid\<close> against \<^verbatim>\<open>errors\<close>: there are
  arguments, \<^verbatim>\<open>valid=True\<close> with a non-empty list of errors, for which the result has
  \<^verbatim>\<open>valid\<close> equal to \<^verbatim>\<open>True\<close> and that same non-empty list as \<^verbatim>\<open>errors\<close>.
\<close>

theorem constructor_valid_with_errors:
  "\<exists>e h r h' x xs.
     new_ValidationResult cs (Some (PBool True)) (Some e) None h = Inr (r, h') \<and>
     list_items h e = Some (x # xs) \<and>
     valid r = PBool True \<and> errors r = e \<and> list_items h' (errors r) = Some (x # xs)"
proof -
  have "new_ValidationResult cs (Some (PBool True)) (Some (PRef 0)) None [OList [PStr ''bad field'']] =
          Inr (\<lparr>valid = PBool True, errors = PRef 0, warnings = PRef 1\<rparr>,
               [OList [PStr ''bad field''], OList []])"
    by (simp add: new_ValidationResult_def ValidationResult_init_def or_new_list_def alloc_def
        lookup_def)
  moreover have "list_items [OList [PStr ''bad field'']] (PRef 0) = Some [PStr ''bad field'']"
    by (simp add: lookup_def)
  moreover have "list_items [OList [PStr ''bad field''], OList []] (PRef 0) = Some [PStr ''bad field'']"
    by (simp add: lookup_def)
  ultimately show ?thesis
    by (intro exI [of _ "PRef 0"] exI [of _ "[OList [PStr ''bad field'']]"]
        exI [of _ "\<lparr>valid = PBool True, errors = PRef 0, warnings = PRef 1\<rparr>"]
        exI [of _ "[OList [PStr ''bad field''], OList []]"]
        exI [of _ "PStr ''bad field''"] exI [of _ "[]"]) simp
qed

text \<open>
  C9. Normalisation is by truth value, not by absence. Let the truth test of the
  \<^verbatim>\<open>errors\<close> argument answer \<open>be\<close> and leave the store \<open>h1\<close>, and let the truth test of
  the \<^verbatim>\<open>warnings\<close> argument, run in the store the first assignment has left, answer
  \<open>bw\<close> and leave \<open>h2\<close>. Then the constructor returns; a field whose argument tested
  false is a new empty list, at an address that held no object before; a field whose
  argument tested true is the argument itself, the same reference, and nothing is
  copied: the constructor adds to the store the new empty lists and nothing else. The
  stores are named because a test may have an effect (a \<^verbatim>\<open>__bool__\<close> that appends to
  a list). The values the specification names, \<^verbatim>\<open>None\<close>, the empty list, 0, the empty
  string and \<^verbatim>\<open>False\<close>, test false, and their test changes nothing.
\<close>

theorem constructor_truthiness:
  "(truthy cs h e = Inr (be, h1) \<and>
    truthy cs (if be then h1 else h1 @ [OList []]) w = Inr (bw, h2) \<longrightarrow>
      (\<exists>r h'. ValidationResult_init cs v e w h = Inr (r, h') \<and> valid r = v \<and>
         (if be then errors r = e else new_empty_list h1 (h1 @ [OList []]) (errors r)) \<and>
         (if bw then warnings r = w else new_empty_list h2 h' (warnings r)) \<and>
         h' = (if bw then h2 else h2 @ [OList []]))) \<and>
   (named_falsy h x \<longrightarrow> truthy cs h x = Inr (False, h))"
proof (intro conjI impI)
  assume t: "truthy cs h e = Inr (be, h1) \<and>
    truthy cs (if be then h1 else h1 @ [OList []]) w = Inr (bw, h2)"
  then have "ValidationResult_init cs v e w h =
           Inr (\<lparr>valid = v, errors = (if be then e else PRef (length h1)),
                   warnings = (if bw then w else PRef (length h2))\<rparr>,
                if bw then h2 else h2 @ [OList []])"
    using init_exact by blast
  then show "\<exists>r h'. ValidationResult_init cs v e w h = Inr (r, h') \<and> valid r = v \<and>
         (if be then errors r = e else new_empty_list h1 (h1 @ [OList []]) (errors r)) \<and>
         (if bw then warnings r = w else new_empty_list h2 h' (warnings r)) \<and>
         h' = (if bw then h2 else h2 @ [OList []])"
    by (simp add: lookup_def)
next
  assume "named_falsy h x"
  then show "truthy cs h x = Inr (False, h)"
    by (rule named_falsy_truthy)
qed

theorem constructor_truthiness_witness:
  "truthy example_classes [OList [], OInstance ''Appender'' []] (PRef 1) =
     Inr (False, [OList [PInt 1], OInstance ''Appender'' []]) \<and>
   truthy example_classes [OList [PInt 1], OInstance ''Appender'' [], OList []] (PRef 0) =
     Inr (True, [OList [PInt 1], OInstance ''Appender'' [], OList []]) \<and>
   ValidationResult_init example_classes (PBool True) (PRef 1) (PRef 0)
       [OList [], OInstance ''Appender'' []] =
     Inr (\<lparr>valid = PBool True, errors = PRef 2, warnings = PRef 0\<rparr>,
          [OList [PInt 1], OInstance ''Appender'' [], OList []]) \<and>
   named_falsy [OList []] PNone \<and>
     truthy example_classes [OList []] PNone = Inr (False, [OList []]) \<and>
   named_falsy [OList []] (PRef 0) \<and>
     truthy example_classes [OList []] (PRef 0) = Inr (False, [OList []]) \<and>
   named_falsy [OList []] (PInt 0) \<and>
     truthy example_classes [OList []] (PInt 0) = Inr (False, [OList []]) \<and>
   named_falsy [OList []] (PStr []) \<and>
     truthy example_classes [OList []] (PStr []) = Inr (False, [OList []]) \<and>
   named_falsy [OList []] (PBool False) \<and>
     truthy example_classes [OList []] (PBool False) = Inr (False, [OList []])"
proof -
  let ?h = "[OList [], OInstance ''Appender'' []]"
  let ?h1 = "[OList [PInt 1], OInstance ''Appender'' []]"
  let ?h2 = "[OList [PInt 1], OInstance ''Appender'' [], OList []]"
  have e: "truthy example_classes ?h (PRef 1) = Inr (False, ?h1)"
    by (simp add: lookup_def example_classes_def append_to_def)
  have w: "truthy example_classes (if False then ?h1 else ?h1 @ [OList []]) (PRef 0) =
             Inr (True, ?h2)"
    by (simp add: lookup_def)
  from constructor_truthiness
         [where cs = example_classes and h = ?h and e = "PRef 1" and be = False and ?h1.0 = ?h1
            and w = "PRef 0" and bw = True and ?h2.0 = ?h2 and v = "PBool True",
          THEN conjunct1, rule_format, OF conjI [OF e w]]
  obtain r h' where
    r: "ValidationResult_init example_classes (PBool True) (PRef 1) (PRef 0) ?h = Inr (r, h')"
       "valid r = PBool True" "new_empty_list ?h1 (?h1 @ [OList []]) (errors r)"
       "warnings r = PRef 0" "h' = ?h2"
    by auto
  from r(3) have "errors r = PRef 2"
    by (cases "errors r") (auto simp: lookup_def split: if_splits)
  with r have init: "ValidationResult_init example_classes (PBool True) (PRef 1) (PRef 0) ?h =
      Inr (\<lparr>valid = PBool True, errors = PRef 2, warnings = PRef 0\<rparr>, ?h2)"
    by (cases r) simp
  have n: "named_falsy [OList []] PNone" "named_falsy [OList []] (PRef 0)"
    "named_falsy [OList []] (PInt 0)" "named_falsy [OList []] (PStr [])"
    "named_falsy [OList []] (PBool False)"
    by (simp_all add: lookup_def)
  note f = constructor_truthiness
         [where cs = example_classes and h = "[OList []]", THEN conjunct2, rule_format]
  show ?thesis
    using e w init n f [OF n(1)] f [OF n(2)] f [OF n(3)] f [OF n(4)] f [OF n(5)]
    by simp
qed

text \<open>
  C10. \<^verbatim>\<open>valid\<close> is stored as it is passed, boolean or not:
  \<^verbatim>\<open>ValidationResult(valid=v).valid\<close> is \<open>v\<close> for every value \<open>v\<close>.
\<close>

theorem constructor_stores_valid:
  "\<exists>r h'. new_ValidationResult cs (Some v) None None h = Inr (r, h') \<and> valid r = v"
  by (simp add: new_ValidationResult_def init_defaults)

end
